theory Spec2Isabelle
  imports Complex_Main
begin

section \<open>Casing simulations: grid builder, source assembler, casing-current extractor\<close>

text \<open>
  A shallow embedding of \<^verbatim>\<open>CasingSimulations.py\<close>. Python floats are modelled as exact
  reals (complex values as exact complex numbers), so every statement below is about the
  arithmetic the code writes down, not about rounding. Arrays are lists. Every exception
  the code can raise is a value of \<open>error\<close>; a result is \<open>error + 'a\<close> with \<open>Inl\<close> the error.
\<close>

datatype error =
    ValueError
  | IndexError
  | KeyError
  | NotFinite
  \<comment> \<open>\<open>NotFinite\<close>: a float division by zero or a logarithm of a non-positive number.
      The source then either raises (ZeroDivisionError, or OverflowError/ValueError when the
      inf/nan reaches \<open>int()\<close>) or goes on computing with inf/nan; exact reals have no such
      values, so the model stops there.\<close>

text \<open>Sequencing of fallible steps: the first error ends the computation.\<close>

definition ebind :: "error + 'a \<Rightarrow> ('a \<Rightarrow> error + 'b) \<Rightarrow> error + 'b" where
  "ebind r f = (case r of Inl e \<Rightarrow> Inl e | Inr x \<Rightarrow> f x)"

subsection \<open>Simulation parameters\<close>

text \<open>\<^verbatim>\<open>class CasingProperties\<close>: the fields the three components read.\<close>

record CasingProperties =
  muModels :: "real list"
  casing_top :: real
  casing_l :: real
  casing_d :: real
  casing_t :: real
  freqs :: "real list"
  dsz :: real
  src_b :: "real \<times> real \<times> real"

definition src_a :: "CasingProperties \<Rightarrow> real \<times> real \<times> real" where
  "src_a cp = (0, 0, dsz cp)"

definition casing_r :: "CasingProperties \<Rightarrow> real" where
  "casing_r cp = casing_d cp / 2"

definition casing_a :: "CasingProperties \<Rightarrow> real" where
  "casing_a cp = casing_r cp - casing_t cp / 2"

definition casing_b :: "CasingProperties \<Rightarrow> real" where
  "casing_b cp = casing_r cp + casing_t cp / 2"

text \<open>\<^verbatim>\<open>np.r_[-self.casing_l, 0.] + self.casing_top\<close>: a two-element array.\<close>

definition casing_z :: "CasingProperties \<Rightarrow> real \<times> real" where
  "casing_z cp = (- casing_l cp + casing_top cp, 0 + casing_top cp)"


subsection \<open>The mesh builder\<close>

record CasingMesh =
  csx1 :: real
  csx2 :: real
  pfx1 :: real
  pfx2 :: real
  dx2 :: real
  npadx2 :: int
  csz :: real
  nza :: int
  pfz :: real
  npadzu :: int
  npadzd :: int
  cp :: CasingProperties

definition default_mesh :: "CasingProperties \<Rightarrow> CasingMesh" where
  "default_mesh c =
     \<lparr>csx1 = 25 / 10000, csx2 = 25, pfx1 = 13 / 10, pfx2 = 3 / 2, dx2 = 1000, npadx2 = 23,
      csz = 5 / 100, nza = 10, pfz = 3 / 2, npadzu = 38, npadzd = 38, cp = c\<rparr>"

text \<open>
  \<^verbatim>\<open>Utils.meshTensor\<close> belongs to the SimPEG library, not to this repository. It is
  modelled from the library's documented behaviour, which is also what the specification
  describes: a tuple \<open>(h, n)\<close> gives \<open>n\<close> cells of width \<open>h\<close>; a tuple \<open>(h, n, f)\<close> gives
  \<open>n\<close> cells of widths \<open>h * |f| ^ 1, ..., h * |f| ^ n\<close>, in reverse order when \<open>f < 0\<close>.
  A negative count gives no cell in the first form (\<^verbatim>\<open>[h] * n\<close>) and raises in the second
  (\<^verbatim>\<open>np.ones(n)\<close>).
\<close>

datatype tensor_spec = Cells real int | Padding real int real

fun meshTensor_part :: "tensor_spec \<Rightarrow> error + real list" where
  "meshTensor_part (Cells h n) = Inr (replicate (nat n) h)"
| "meshTensor_part (Padding h n f) =
     (if n < 0 then Inl ValueError
      else let pad = map (\<lambda>i. \<bar>f\<bar> ^ (i + 1) * h) [0..<nat n]
           in Inr (if f < 0 then rev pad else pad))"

fun meshTensor :: "tensor_spec list \<Rightarrow> error + real list" where
  "meshTensor [] = Inr []"
| "meshTensor (v # vs) =
     ebind (meshTensor_part v) (\<lambda>ws. ebind (meshTensor vs) (\<lambda>rest. Inr (ws @ rest)))"

text \<open>\<^verbatim>\<open>np.ceil(self.cp.casing_b/self.csx1+2)\<close>\<close>

definition ncx1 :: "CasingMesh \<Rightarrow> error + int" where
  "ncx1 m =
     (if csx1 m = 0 then Inl NotFinite
      else Inr \<lceil>casing_b (cp m) / csx1 m + 2\<rceil>)"

text \<open>\<^verbatim>\<open>np.floor(np.log(self.csx2/self.csx1) / np.log(self.pfx1))\<close>\<close>

definition npadx1 :: "CasingMesh \<Rightarrow> error + int" where
  "npadx1 m =
     (if csx1 m = 0 \<or> csx2 m / csx1 m \<le> 0 \<or> pfx1 m \<le> 0 \<or> pfx1 m = 1 then Inl NotFinite
      else Inr \<lfloor>ln (csx2 m / csx1 m) / ln (pfx1 m)\<rfloor>)"

text \<open>
  The body of \<^verbatim>\<open>hx\<close>, region by region. The attribute cache \<^verbatim>\<open>_hx\<close> only avoids
  recomputation and is left out.
\<close>

text \<open>Finest uniform region: \<^verbatim>\<open>Utils.meshTensor([(self.csx1, self.ncx1)])\<close>.\<close>

definition hx1a :: "CasingMesh \<Rightarrow> error + real list" where
  "hx1a m = ebind (ncx1 m) (\<lambda>n1. meshTensor [Cells (csx1 m) n1])"

text \<open>
  Padding to the second uniform region, before it is scaled:
  \<^verbatim>\<open>Utils.meshTensor([(self.csx1, self.npadx1, self.pfx1)])\<close>.
\<close>

definition hx1b_unscaled :: "CasingMesh \<Rightarrow> error + real list" where
  "hx1b_unscaled m = ebind (npadx1 m) (\<lambda>np1. meshTensor [Padding (csx1 m) np1 (pfx1 m)])"

text \<open>
  The four regions before \<^verbatim>\<open>np.hstack\<close>; \<open>hx\<close> concatenates them.

  The source reuses the name \<^verbatim>\<open>dx1\<close>: first the summed width of regions 1 and 2, then
  (after \<^verbatim>\<open>np.floor(dx1/self.csx2)\<close>) the number of whole \<open>csx2\<close> cells in that width.
  The count \<^verbatim>\<open>ncx2\<close> is computed from the second value.

  The in-place scaling \<^verbatim>\<open>hx1b *= (...)/sum(hx1b)\<close> divides by zero when the padding widths
  sum to zero. On an empty padding region the (non-finite) factor multiplies nothing and the
  region stays empty; otherwise the entries become non-finite.
\<close>

definition hx_regions ::
  "CasingMesh \<Rightarrow> error + (real list \<times> real list \<times> real list \<times> real list)" where
  "hx_regions m =
     ebind (hx1a m) (\<lambda>hx1a.
     ebind (hx1b_unscaled m) (\<lambda>hx1b.
       if csx2 m = 0 then Inl NotFinite
       else
         let dx1 = sum_list hx1a + sum_list hx1b;
             dx1 = \<lfloor>dx1 / csx2 m\<rfloor>
         in if sum_list hx1b = 0 \<and> hx1b \<noteq> [] then Inl NotFinite
            else
              let hx1b = map (\<lambda>h. h * ((real_of_int dx1 * csx2 m - sum_list hx1a)
                                          / sum_list hx1b)) hx1b;
                  ncx2 = \<lceil>(dx2 m - real_of_int dx1) / csx2 m\<rceil>
              in ebind (meshTensor [Cells (csx2 m) ncx2]) (\<lambda>hx2a.
                 ebind (meshTensor [Padding (csx2 m) (npadx2 m) (pfx2 m)]) (\<lambda>hx2b.
                   Inr (hx1a, hx1b, hx2a, hx2b)))))"

definition hx :: "CasingMesh \<Rightarrow> error + real list" where
  "hx m =
     ebind (hx_regions m) (\<lambda>(hx1a, hx1b, hx2a, hx2b). Inr (hx1a @ hx1b @ hx2a @ hx2b))"

text \<open>
  \<^verbatim>\<open>np.int(np.ceil(-self.cp.casing_z[0]/self.csz))+10\<close>. With \<open>csz = 0\<close> the quotient is
  inf or nan and \<^verbatim>\<open>np.int\<close> raises.
\<close>

definition ncz :: "CasingMesh \<Rightarrow> error + int" where
  "ncz m =
     (if csz m = 0 then Inl NotFinite
      else Inr (\<lceil>- fst (casing_z (cp m)) / csz m\<rceil> + 10))"

text \<open>
  \<^verbatim>\<open>hz\<close>: downward padding (reversed, so the widths grow away from the core), the
  uniform core, upward padding.
\<close>

definition hz :: "CasingMesh \<Rightarrow> error + real list" where
  "hz m =
     ebind (ncz m) (\<lambda>n.
       meshTensor [Padding (csz m) (npadzd m) (- pfz m), Cells (csz m) n,
                   Padding (csz m) (npadzu m) (pfz m)])"

subsection \<open>The mesh object\<close>

text \<open>
  The source assembler and the current extractor receive a SimPEG cylindrical mesh and read
  attributes of it. The mesh class is not part of this repository; the record lists the
  attributes the code reads, as data: face locations are the rows \<open>(x, y, z)\<close> of
  \<^verbatim>\<open>gridFx\<close> and \<^verbatim>\<open>gridFz\<close>, \<^verbatim>\<open>vnF\<close> is the number of faces per direction,
  \<^verbatim>\<open>vnFx\<close> and \<^verbatim>\<open>vnFz\<close> the number of x- and z-faces along each axis, and
  \<^verbatim>\<open>aveF2CC\<close> the sparse face-to-cell-centre averaging matrix.
\<close>

record SparseMatrix =
  shape :: "nat \<times> nat"
  entries :: "(nat \<times> nat \<times> real) list"  \<comment> \<open>(row, column, value)\<close>

record CylMesh =
  mesh_hx :: "real list"
  mesh_hz :: "real list"
  gridFx :: "(real \<times> real \<times> real) list"
  gridFz :: "(real \<times> real \<times> real) list"
  vnF :: "nat \<times> nat \<times> nat"
  nFx :: nat
  vnFx :: "nat \<times> nat \<times> nat"
  vnFz :: "nat \<times> nat \<times> nat"
  area :: "real list"
  aveF2CC :: SparseMatrix

text \<open>Components \<^verbatim>\<open>v[0]\<close> and \<^verbatim>\<open>v[2]\<close> of a length-3 array.\<close>

fun c0 :: "'a \<times> 'a \<times> 'a \<Rightarrow> 'a" where
  "c0 (x, y, z) = x"

fun c1 :: "'a \<times> 'a \<times> 'a \<Rightarrow> 'a" where
  "c1 (x, y, z) = y"

fun c2 :: "'a \<times> 'a \<times> 'a \<Rightarrow> 'a" where
  "c2 (x, y, z) = z"

text \<open>\<^verbatim>\<open>a.min()\<close> raises ValueError on an empty array.\<close>

definition np_min :: "real list \<Rightarrow> error + real" where
  "np_min xs = (if xs = [] then Inl ValueError else Inr (min_list xs))"

subsection \<open>Source grounded on the casing\<close>

record DownHoleCasingSrc =
  s_mesh :: CylMesh
  s_src_a :: "real \<times> real \<times> real"
  s_src_b :: "real \<times> real \<times> real"
  s_casing_a :: real
  s_freqs :: "real list"

text \<open>Vertically directed wire in the borehole, through the centre of the well.\<close>

definition dgv_ind :: "DownHoleCasingSrc \<Rightarrow> error + bool list" where
  "dgv_ind s =
     ebind (np_min (mesh_hx (s_mesh s))) (\<lambda>hx_min.
     ebind (np_min (mesh_hz (s_mesh s))) (\<lambda>hz_min.
       Inr (map (\<lambda>f. c0 f < hx_min
                    \<and> (c2 f \<ge> c2 (s_src_a s) \<and> c2 f \<le> c2 (s_src_b s) + 2 * hz_min))
              (gridFz (s_mesh s)))))"

text \<open>Coupling to the casing downhole.\<close>

definition dgh_ind2 :: "DownHoleCasingSrc \<Rightarrow> error + bool list" where
  "dgh_ind2 s =
     ebind (np_min (mesh_hz (s_mesh s))) (\<lambda>hz_min.
       Inr (map (\<lambda>f. c0 f \<le> s_casing_a s
                    \<and> (c2 f \<le> c2 (s_src_a s) \<and> c2 f > c2 (s_src_a s) - hz_min))
              (gridFx (s_mesh s))))"

text \<open>Horizontally directed wire along the surface.\<close>

definition sgh_ind :: "DownHoleCasingSrc \<Rightarrow> error + bool list" where
  "sgh_ind s =
     ebind (np_min (mesh_hz (s_mesh s))) (\<lambda>hz_min.
       Inr (map (\<lambda>f. c0 f \<le> c0 (s_src_b s)
                    \<and> (c2 f > hz_min \<and> c2 f < 2 * hz_min))
              (gridFx (s_mesh s))))"

text \<open>Return electrode.\<close>

definition sgv_ind :: "DownHoleCasingSrc \<Rightarrow> error + bool list" where
  "sgv_ind s =
     ebind (np_min (mesh_hz (s_mesh s))) (\<lambda>hz_min.
       Inr (map (\<lambda>f. (c0 f > c0 (s_src_b s) * (9 / 10) \<and> c0 f < c0 (s_src_b s) * (11 / 10))
                    \<and> (c2 f \<ge> - hz_min \<and> c2 f < 2 * hz_min))
              (gridFz (s_mesh s))))"

text \<open>
  \<^verbatim>\<open>a[mask] = v\<close> with a boolean mask: the mask must have the length of the array
  (IndexError otherwise); the entries under \<open>True\<close> become \<open>v\<close>.
\<close>

definition set_mask :: "complex list \<Rightarrow> bool list \<Rightarrow> complex \<Rightarrow> error + complex list" where
  "set_mask a msk v =
     (if length msk \<noteq> length a then Inl IndexError
      else Inr (map2 (\<lambda>b x. if b then v else x) msk a))"

text \<open>
  The unit injections: the vector \<^verbatim>\<open>dg\<close> that \<^verbatim>\<open>dg_p\<close> assembles before it divides
  by the face areas. The four assignments are made in the order of the source.
\<close>

definition dg :: "DownHoleCasingSrc \<Rightarrow> error + complex list" where
  "dg s =
     (let dg_x = replicate (c0 (vnF (s_mesh s))) 0;
          dg_y = replicate (c1 (vnF (s_mesh s))) 0;
          dg_z = replicate (c2 (vnF (s_mesh s))) 0
      in ebind (dgv_ind s) (\<lambda>dgv.
         ebind (set_mask dg_z dgv (- 1)) (\<lambda>dg_z.
         ebind (dgh_ind2 s) (\<lambda>dgh.
         ebind (set_mask dg_x dgh 1) (\<lambda>dg_x.
         ebind (sgh_ind s) (\<lambda>sgh.
         ebind (set_mask dg_x sgh (- 1)) (\<lambda>dg_x.
         ebind (sgv_ind s) (\<lambda>sgv.
         ebind (set_mask dg_z sgv 1) (\<lambda>dg_z.
           Inr (dg_x @ dg_y @ dg_z))))))))))"

text \<open>
  \<^verbatim>\<open>dg/self.mesh.area\<close>: elementwise, with numpy's broadcasting of a one-element operand;
  other length mismatches raise ValueError. A zero area gives inf or nan.
\<close>

definition np_divide :: "complex list \<Rightarrow> real list \<Rightarrow> error + complex list" where
  "np_divide xs ys =
     (let n = length xs; k = length ys in
      if n \<noteq> k \<and> n \<noteq> 1 \<and> k \<noteq> 1 then Inl ValueError
      else
        let xs' = (if n = k \<or> k = 1 then xs else replicate k (hd xs));
            ys' = (if n = k \<or> k \<noteq> 1 then ys else replicate n (hd ys))
        in if 0 \<in> set ys' then Inl NotFinite
           else Inr (map2 (\<lambda>x a. x / complex_of_real a) xs' ys'))"

text \<open>
  A raw source \<^verbatim>\<open>FDEM.Src.RawVec_e([], freq, s_e)\<close> (no receivers) is the pair of its
  frequency and its vector. The division is inside the list comprehension, so it is not
  evaluated when there is no frequency. The attribute cache \<^verbatim>\<open>_dg_p\<close> is left out.
\<close>

type_synonym RawVec_e = "real \<times> complex list"

definition dg_p :: "DownHoleCasingSrc \<Rightarrow> error + RawVec_e list" where
  "dg_p s =
     ebind (dg s) (\<lambda>dg.
       if s_freqs s = [] then Inr []
       else ebind (np_divide dg (area (s_mesh s))) (\<lambda>v. Inr (map (\<lambda>f. (f, v)) (s_freqs s))))"

subsection \<open>Casing currents from a fields object\<close>

text \<open>
  \<^verbatim>\<open>CasingCurrents\<close> receives the array \<^verbatim>\<open>sigma_m\<close> by reference, copies it and writes
  into the copy. To state what happens to the caller's array, arrays of reals live in a
  store and are passed as references; \<^verbatim>\<open>copy()\<close> allocates a new array.
\<close>

type_synonym ref = nat
type_synonym store = "real list list"

definition np_copy :: "store \<Rightarrow> ref \<Rightarrow> store \<times> ref" where
  "np_copy st r = (st @ [st ! r], length st)"

text \<open>
  \<^verbatim>\<open>a[[i, j, ...]] = v\<close> and \<^verbatim>\<open>a[i] = v\<close>: an index outside the array raises
  IndexError and leaves the array as it was.
\<close>

definition setitems :: "store \<Rightarrow> ref \<Rightarrow> nat list \<Rightarrow> real \<Rightarrow> error + store" where
  "setitems st r idx v =
     (if \<forall>i \<in> set idx. i < length (st ! r)
      then Inr (st[r := fold (\<lambda>i a. a[i := v]) idx (st ! r)])
      else Inl IndexError)"

definition setitem :: "store \<Rightarrow> ref \<Rightarrow> nat \<Rightarrow> real \<Rightarrow> error + store" where
  "setitem st r i v = setitems st r [i] v"

text \<open>
  The first three statements of \<^verbatim>\<open>CasingCurrents\<close>: the reference to the indicator array,
  or the error, and the store after them.
\<close>

definition casing_ind :: "store \<Rightarrow> ref \<Rightarrow> (error + ref) \<times> store" where
  "casing_ind st sigma_m =
     (let (st1, ind) = np_copy st sigma_m
      in case setitems st1 ind [0, 1, 3] 0 of
           Inl e \<Rightarrow> (Inl e, st1)
         | Inr st2 \<Rightarrow>
             (case setitem st2 ind 2 1 of
                Inl e \<Rightarrow> (Inl e, st2)
              | Inr st3 \<Rightarrow> (Inr ind, st3)))"

text \<open>
  \<^verbatim>\<open>Maps.InjectActiveCells(mesh, indActive, valInactive) * v\<close> (SimPEG, not part of this
  repository): \<open>v\<close> has one value per active cell; the result has one value per cell of the
  mesh, \<open>valInactive\<close> on the inactive ones.
\<close>

fun inject :: "bool list \<Rightarrow> real \<Rightarrow> real list \<Rightarrow> real list" where
  "inject [] d vs = []"
| "inject (False # bs) d vs = d # inject bs d vs"
| "inject (True # bs) d (v # vs) = v # inject bs d vs"
| "inject (True # bs) d [] = d # inject bs d []"

definition InjectActiveCells :: "bool list \<Rightarrow> real \<Rightarrow> real list \<Rightarrow> error + real list" where
  "InjectActiveCells indActive valInactive v =
     (if length v \<noteq> length (filter id indActive) then Inl ValueError
      else Inr (inject indActive valInactive v))"

text \<open>\<^verbatim>\<open>A.T * v\<close> for a sparse matrix \<open>A\<close>: a dimension mismatch raises ValueError.\<close>

definition matT_vec :: "SparseMatrix \<Rightarrow> real list \<Rightarrow> error + real list" where
  "matT_vec A v =
     (if length v \<noteq> fst (shape A) then Inl ValueError
      else Inr (map (\<lambda>col. sum_list (map (\<lambda>(i, j, w). if j = col then w * v ! i else 0)
                                        (entries A)))
                  [0..<snd (shape A)]))"

text \<open>\<^verbatim>\<open>casing_faces[casing_faces < 0.25] = 0\<close>\<close>

definition threshold_faces :: "real list \<Rightarrow> real list" where
  "threshold_faces faces = map (\<lambda>x. if x < 25 / 100 then 0 else x) faces"

text \<open>
  The face indicator: \<^verbatim>\<open>actMap_Zeros * casingMap * casing_ind\<close> (here \<open>ind\<close> is the
  content of the indicator array), averaged to faces and thresholded. \<^verbatim>\<open>casingMap\<close> is the caller's map from the model vector to the active
  cells.
\<close>

definition casing_faces ::
  "CylMesh \<Rightarrow> real list \<Rightarrow> bool list \<Rightarrow> (real list \<Rightarrow> real list) \<Rightarrow> error + real list" where
  "casing_faces mesh ind indActive casingMap =
     ebind (InjectActiveCells indActive 0 (casingMap ind)) (\<lambda>indCasing.
     ebind (matT_vec (aveF2CC mesh) indCasing) (\<lambda>faces.
       Inr (threshold_faces faces)))"

text \<open>
  \<^verbatim>\<open>Utils.sdiag(d) * j\<close>: \<open>j\<close> is a matrix with one row per face and one column per
  frequency, held as the list of its columns; every row is multiplied by its entry of \<open>d\<close>.
\<close>

definition sdiag_mult :: "real list \<Rightarrow> complex list list \<Rightarrow> error + complex list list" where
  "sdiag_mult d j =
     (if \<forall>col \<in> set j. length col = length d
      then Inr (map (\<lambda>col. map2 (\<lambda>a x. complex_of_real a * x) d col) j)
      else Inl ValueError)"

text \<open>
  \<^verbatim>\<open>v.reshape(n0, n2, order='F').sum(0)\<close>: entry \<open>(i, k)\<close> of the reshaped array is
  \<open>v[i + k * n0]\<close>; summing over the first axis leaves one value per \<open>k\<close>.
\<close>

definition reshape_sum0 :: "complex list \<Rightarrow> nat \<Rightarrow> nat \<Rightarrow> error + complex list" where
  "reshape_sum0 v n0 n2 =
     (if length v \<noteq> n0 * n2 then Inl ValueError
      else Inr (map (\<lambda>k. sum_list (take n0 (drop (k * n0) v))) [0..<n2]))"

text \<open>The loop over the frequency indices, for one permeability.\<close>

fun freq_loop ::
  "CylMesh \<Rightarrow> complex list list \<Rightarrow> nat list
   \<Rightarrow> error + (complex list list \<times> complex list list)" where
  "freq_loop mesh jACasing [] = Inr ([], [])"
| "freq_loop mesh jACasing (freqind # rest) =
     (if freqind \<ge> length jACasing then Inl IndexError
      else
        ebind (reshape_sum0 (take (nFx mesh) (jACasing ! freqind))
                 (c0 (vnFx mesh)) (c2 (vnFx mesh))) (\<lambda>ix.
        ebind (reshape_sum0 (drop (nFx mesh) (jACasing ! freqind))
                 (c0 (vnFz mesh)) (c2 (vnFz mesh))) (\<lambda>iz.
        ebind (freq_loop mesh jACasing rest) (\<lambda>(ixCasing, izCasing).
          Inr (ix # ixCasing, iz # izCasing)))))"

text \<open>
  The loop over the permeabilities. \<^verbatim>\<open>fields[mur][:, 'j']\<close> is the solved current density
  for permeability \<open>mur\<close>; a missing key raises KeyError. The two dictionaries are maps.
\<close>

type_synonym currents = "real \<rightharpoonup> complex list list"

fun mu_loop ::
  "CasingProperties \<Rightarrow> (real \<rightharpoonup> complex list list) \<Rightarrow> CylMesh \<Rightarrow> real list \<Rightarrow> real list
   \<Rightarrow> currents \<times> currents \<Rightarrow> error + (currents \<times> currents)" where
  "mu_loop cprops flds mesh faces [] (IxCasing, IzCasing) = Inr (IxCasing, IzCasing)"
| "mu_loop cprops flds mesh faces (mur # rest) (IxCasing, IzCasing) =
     (case flds mur of
        None \<Rightarrow> Inl KeyError
      | Some j \<Rightarrow>
          ebind (sdiag_mult (area mesh) j) (\<lambda>jA.
          ebind (sdiag_mult faces jA) (\<lambda>jACasing.
          ebind (freq_loop mesh jACasing [0..<length (freqs cprops)]) (\<lambda>(ixCasing, izCasing).
            mu_loop cprops flds mesh faces rest
              (IxCasing(mur \<mapsto> ixCasing), IzCasing(mur \<mapsto> izCasing))))))"

text \<open>
  \<^verbatim>\<open>CasingCurrents\<close> (its parameters \<^verbatim>\<open>cp\<close> and \<^verbatim>\<open>fields\<close> are \<open>cprops\<close> and
  \<open>flds\<close> here): the result (the two dictionaries, or the error raised) and the store after
  the call.
\<close>

definition CasingCurrents ::
  "CasingProperties \<Rightarrow> (real \<rightharpoonup> complex list list) \<Rightarrow> CylMesh \<Rightarrow> ref \<Rightarrow> bool list
   \<Rightarrow> (real list \<Rightarrow> real list) \<Rightarrow> store \<Rightarrow> (error + (currents \<times> currents)) \<times> store" where
  "CasingCurrents cprops flds mesh sigma_m indActive casingMap st =
     (case casing_ind st sigma_m of
        (Inl e, st') \<Rightarrow> (Inl e, st')
      | (Inr ind, st') \<Rightarrow>
          (ebind (casing_faces mesh (st' ! ind) indActive casingMap) (\<lambda>faces.
             mu_loop cprops flds mesh faces (muModels cprops) (Map.empty, Map.empty)),
           st'))"

subsection \<open>Example configurations\<close>

text \<open>
  A short, wide casing: length 2, diameter 1, wall thickness 1/2 (so inner radius 1/4, outer
  radius 3/4), source at depth 1, return electrode at radius 5/4, one frequency and one
  permeability. It is used with small meshes whose cell widths are binary fractions, so that
  the float computation of the source is exact on them as well.
\<close>

definition small_cp :: CasingProperties where
  "small_cp =
     \<lparr>muModels = [1], casing_top = 0, casing_l = 2, casing_d = 1, casing_t = 1 / 2,
      freqs = [1], dsz = - 1, src_b = (5 / 4, 0, 0)\<rparr>"

text \<open>Fine cells of 1/8, coarse cells of 1/2, two padding cells between them.\<close>

definition short_mesh :: CasingMesh where
  "short_mesh =
     (default_mesh small_cp)\<lparr>csx1 := 1 / 8, csx2 := 1 / 2, pfx1 := 2, pfx2 := 2, dx2 := 10,
                               npadx2 := 2\<rparr>"

text \<open>Coarse cells less than one padding factor above the fine ones: no padding cell.\<close>

definition nopad_mesh :: CasingMesh where
  "nopad_mesh =
     (default_mesh small_cp)\<lparr>csx1 := 1, csx2 := 2, pfx1 := 4, pfx2 := 2, dx2 := 9,
                               npadx2 := 0\<rparr>"


text \<open>
  A small cylindrically symmetric mesh: three radial cells of widths 1/4, 1/2, 1 and four
  vertical cells of width 1, from \<open>z = - 2\<close> to \<open>z = 2\<close>. The attributes are what
  \<^verbatim>\<open>Mesh.CylMesh([[.25, .5, 1.], 1, [1., 1., 1., 1.]], [0., 0., -2.])\<close> has. Cell \<open>(i, k)\<close>
  (radial index \<open>i\<close>, vertical index \<open>k\<close>) has number \<open>i + 3 * k\<close>. The 12 x-faces sit at the
  outer radius of each cell, at the height of its centre; the 15 z-faces sit at the radial
  cell centres, at the 5 node heights; in both the radial index runs fastest. The face
  vector holds the x-faces, then the z-faces (a symmetric mesh has no y-face). Areas are
  \<open>2 * pi * r * hz\<close> for an x-face and \<open>pi * (r_outer\<^sup>2 - r_inner\<^sup>2)\<close> for a z-face.
  The averaging matrix gives a cell one half of the mean of its x-faces (the innermost cell
  has only its outer x-face) and one half of the mean of its two z-faces.
\<close>

definition toy_mesh :: CylMesh where
  "toy_mesh =
     \<lparr>mesh_hx = [1 / 4, 1 / 2, 1],
      mesh_hz = [1, 1, 1, 1],
      gridFx =
        [(1 / 4, 0, - 3 / 2), (3 / 4, 0, - 3 / 2), (7 / 4, 0, - 3 / 2),
         (1 / 4, 0, - 1 / 2), (3 / 4, 0, - 1 / 2), (7 / 4, 0, - 1 / 2), (1 / 4, 0, 1 / 2),
         (3 / 4, 0, 1 / 2), (7 / 4, 0, 1 / 2), (1 / 4, 0, 3 / 2), (3 / 4, 0, 3 / 2),
         (7 / 4, 0, 3 / 2)],
      gridFz =
        [(1 / 8, 0, - 2), (1 / 2, 0, - 2), (5 / 4, 0, - 2), (1 / 8, 0, - 1),
         (1 / 2, 0, - 1), (5 / 4, 0, - 1), (1 / 8, 0, 0), (1 / 2, 0, 0), (5 / 4, 0, 0),
         (1 / 8, 0, 1), (1 / 2, 0, 1), (5 / 4, 0, 1), (1 / 8, 0, 2), (1 / 2, 0, 2),
         (5 / 4, 0, 2)],
      vnF = (12, 0, 15),
      nFx = 12,
      vnFx = (3, 1, 4),
      vnFz = (3, 1, 5),
      area = map (\<lambda>a. a * pi)
        [1 / 2, 3 / 2, 7 / 2, 1 / 2, 3 / 2, 7 / 2, 1 / 2, 3 / 2, 7 / 2, 1 / 2, 3 / 2,
         7 / 2, 1 / 16, 1 / 2, 5 / 2, 1 / 16, 1 / 2, 5 / 2, 1 / 16, 1 / 2, 5 / 2, 1 / 16,
         1 / 2, 5 / 2, 1 / 16, 1 / 2, 5 / 2],
      aveF2CC = \<lparr>shape = (12, 27), entries =
        [(0, 0, 1 / 2), (0, 12, 1 / 4), (0, 15, 1 / 4), (1, 0, 1 / 4), (1, 1, 1 / 4),
         (1, 13, 1 / 4), (1, 16, 1 / 4), (2, 1, 1 / 4), (2, 2, 1 / 4), (2, 14, 1 / 4),
         (2, 17, 1 / 4), (3, 3, 1 / 2), (3, 15, 1 / 4), (3, 18, 1 / 4), (4, 3, 1 / 4),
         (4, 4, 1 / 4), (4, 16, 1 / 4), (4, 19, 1 / 4), (5, 4, 1 / 4), (5, 5, 1 / 4),
         (5, 17, 1 / 4), (5, 20, 1 / 4), (6, 6, 1 / 2), (6, 18, 1 / 4), (6, 21, 1 / 4),
         (7, 6, 1 / 4), (7, 7, 1 / 4), (7, 19, 1 / 4), (7, 22, 1 / 4), (8, 7, 1 / 4),
         (8, 8, 1 / 4), (8, 20, 1 / 4), (8, 23, 1 / 4), (9, 9, 1 / 2), (9, 21, 1 / 4),
         (9, 24, 1 / 4), (10, 9, 1 / 4), (10, 10, 1 / 4), (10, 22, 1 / 4), (10, 25, 1 / 4),
         (11, 10, 1 / 4), (11, 11, 1 / 4), (11, 23, 1 / 4), (11, 26, 1 / 4)]\<rparr>\<rparr>"

text \<open>The same mesh placed 18 lower, from \<open>z = - 20\<close> to \<open>z = - 16\<close>: below the source.\<close>

definition deep_mesh :: CylMesh where
  "deep_mesh =
     toy_mesh\<lparr>gridFx := map (\<lambda>(x, y, z). (x, y, z - 18)) (gridFx toy_mesh),
              gridFz := map (\<lambda>(x, y, z). (x, y, z - 18)) (gridFz toy_mesh)\<rparr>"

text \<open>
  The mesh of one cell, \<^verbatim>\<open>Mesh.CylMesh([[1.], 1, [1.]], [0., 0., 0.])\<close>: one x-face at
  \<open>r = 1\<close>, two z-faces at \<open>z = 0\<close> and \<open>z = 1\<close>.
\<close>

definition cell_mesh :: CylMesh where
  "cell_mesh =
     \<lparr>mesh_hx = [1], mesh_hz = [1],
      gridFx = [(1, 0, 1 / 2)],
      gridFz = [(1 / 2, 0, 0), (1 / 2, 0, 1)],
      vnF = (1, 0, 2), nFx = 1, vnFx = (1, 1, 1), vnFz = (1, 1, 2),
      area = [2 * pi, pi, pi],
      aveF2CC = \<lparr>shape = (1, 3), entries = [(0, 0, 1 / 2), (0, 1, 1 / 4), (0, 2, 1 / 4)]\<rparr>\<rparr>"

text \<open>
  The source as the simulation scripts build it:
  \<^verbatim>\<open>DownHoleCasingSrc(mesh, cp.src_a, cp.src_b, cp.casing_a, cp.freqs)\<close>.
\<close>

definition src_on :: "CylMesh \<Rightarrow> CasingProperties \<Rightarrow> DownHoleCasingSrc" where
  "src_on mesh c =
     \<lparr>s_mesh = mesh, s_src_a = src_a c, s_src_b = src_b c, s_casing_a = casing_a c,
      s_freqs = freqs c\<rparr>"

text \<open>
  Inputs of the current extractor on the one-cell mesh: a unit current density on every
  face for the single permeability, the model vector in the store, the cell active.
\<close>

definition unit_fields :: "real \<rightharpoonup> complex list list" where
  "unit_fields = [1 \<mapsto> [[1, 1, 1]]]"

definition sigma_store :: store where
  "sigma_store = [[1 / 100000000, 1 / 100, 5500000, 1]]"

text \<open>
  The short casing with the return electrode at radius 1/8, on the axis cells of the small
  mesh: the return-electrode selection then overlaps the borehole selection.
\<close>

definition axis_cp :: CasingProperties where
  "axis_cp = small_cp\<lparr>src_b := (1 / 8, 0, 0)\<rparr>"

text \<open>
  Two maps from the model vector to the single active cell: the cell takes the entry 2 of
  the model vector (the entry the code marks as casing), or the entry 1.
\<close>

definition casing_cell_map :: "real list \<Rightarrow> real list" where
  "casing_cell_map v = [v ! 2]"

definition other_cell_map :: "real list \<Rightarrow> real list" where
  "other_cell_map v = [v ! 1]"

section \<open>Properties\<close>

subsection \<open>Auxiliary facts\<close>

lemma ebind_Inl [simp]: "ebind (Inl e) f = Inl e"
  by (simp add: ebind_def)

lemma ebind_Inr [simp]: "ebind (Inr x) f = f x"
  by (simp add: ebind_def)

lemma ebind_eq_Inr: "ebind r f = Inr y \<longleftrightarrow> (\<exists>x. r = Inr x \<and> f x = Inr y)"
  by (cases r) simp_all

lemma upt_2: "[0..<2] = [0, Suc 0]"
  by (simp add: upt_rec numeral_2_eq_2)

lemma replicate_numeral: "replicate (numeral k) x = x # replicate (pred_numeral k) x"
  by (simp add: numeral_eq_Suc)

text \<open>The floor of a quotient of logarithms, from two powers that enclose the argument.\<close>

lemma floor_ln_quot:
  fixes a b :: real
  assumes "1 < b" "b ^ n \<le> a" "a < b ^ Suc n"
  shows "\<lfloor>ln a / ln b\<rfloor> = int n"
proof -
  have b0: "0 < ln b" using assms(1) by simp
  have a0: "0 < a"
    using assms(1,2) by (meson less_le_trans zero_less_power zero_less_one less_trans)
  have "ln (b ^ n) \<le> ln a" using assms a0 by simp
  then have l: "real n * ln b \<le> ln a" using assms(1) by (simp add: ln_realpow)
  have "ln a < ln (b ^ Suc n)" using assms a0 by (simp del: power_Suc)
  then have u: "ln a < (real n + 1) * ln b" using assms(1)
    by (simp add: ln_realpow add.commute del: power_Suc)
  have "real n \<le> ln a / ln b" using l b0 by (simp add: pos_le_divide_eq)
  moreover have "ln a / ln b < real n + 1" using u b0 by (simp add: pos_divide_less_eq)
  ultimately show ?thesis by (simp add: floor_eq_iff)
qed

lemma sum_list_scaled: "sum_list (map (\<lambda>h. h * (c::real)) xs) = sum_list xs * c"
  by (induction xs) (simp_all add: algebra_simps)

subsection \<open>The mesh builder\<close>

text \<open>What a successful run of \<open>hx_regions\<close> has computed.\<close>

lemma hx_regions_Inr:
  assumes "hx_regions m = Inr (a, b, c, d)"
  shows "\<exists>pad. hx1a m = Inr a \<and> hx1b_unscaled m = Inr pad \<and> csx2 m \<noteq> 0 \<and>
    (pad = [] \<or> sum_list pad \<noteq> 0) \<and>
    b = map (\<lambda>h. h * ((real_of_int \<lfloor>(sum_list a + sum_list pad) / csx2 m\<rfloor> * csx2 m
                            - sum_list a) / sum_list pad)) pad \<and>
    c = replicate (nat \<lceil>(dx2 m - real_of_int \<lfloor>(sum_list a + sum_list pad) / csx2 m\<rfloor>)
                          / csx2 m\<rceil>) (csx2 m)"
proof (cases "hx1a m")
  case (Inl e)
  with assms show ?thesis by (simp add: hx_regions_def)
next
  case a: (Inr a')
  show ?thesis
  proof (cases "hx1b_unscaled m")
    case (Inl e)
    with assms a show ?thesis by (simp add: hx_regions_def)
  next
    case (Inr pad)
    with assms a show ?thesis
      by (auto simp: hx_regions_def Let_def ebind_eq_Inr split: if_splits)
  qed
qed

text \<open>The example meshes, evaluated.\<close>

lemma short_mesh_hx1a: "hx1a short_mesh = Inr (replicate 8 (1 / 8))"
  by (simp add: hx1a_def ncx1_def short_mesh_def default_mesh_def small_cp_def
      casing_b_def casing_r_def)

lemma short_mesh_npadx1: "npadx1 short_mesh = Inr 2"
proof -
  have "\<lfloor>ln (4::real) / ln 2\<rfloor> = int 2"
    by (rule floor_ln_quot) simp_all
  then show ?thesis
    by (simp add: npadx1_def short_mesh_def default_mesh_def)
qed

lemma short_mesh_hx1b: "hx1b_unscaled short_mesh = Inr [1 / 4, 1 / 2]"
  by (simp add: hx1b_unscaled_def short_mesh_npadx1 upt_2)
     (simp add: short_mesh_def default_mesh_def)

lemma short_mesh_regions:
  "hx_regions short_mesh
     = Inr (replicate 8 (1 / 8), [1 / 6, 1 / 3], replicate 14 (1 / 2), [1, 2])"
  by (simp add: hx_regions_def short_mesh_hx1a short_mesh_hx1b Let_def upt_2 sum_list_replicate)
     (simp add: short_mesh_def default_mesh_def upt_2 sum_list_replicate)

lemma nopad_mesh_npadx1: "npadx1 nopad_mesh = Inr 0"
proof -
  have "\<lfloor>ln (2::real) / ln 4\<rfloor> = int 0"
    by (rule floor_ln_quot) simp_all
  then show ?thesis
    by (simp add: npadx1_def nopad_mesh_def default_mesh_def)
qed

lemma nopad_mesh_hx1b: "hx1b_unscaled nopad_mesh = Inr []"
  by (simp add: hx1b_unscaled_def nopad_mesh_npadx1)

lemma nopad_mesh_hx1a: "hx1a nopad_mesh = Inr [1, 1, 1]"
  by (simp add: hx1a_def ncx1_def nopad_mesh_def default_mesh_def small_cp_def
      casing_b_def casing_r_def replicate_numeral)




text \<open>
  Claim C3, evaluated at a failing input. With fine cells of 1/8, coarse cells of 1/2,
  padding factor 2 and \<open>dx2 = 10\<close>, regions 1 and 2 sum to 3/2 (three coarse cells); the code
  then takes \<open>ceil((10 - 3) / (1/2)) = 14\<close> coarse cells, subtracting the number of cells 3
  where the width 3/2 is meant, and regions 1 to 3 reach 17/2 only, short of \<open>dx2 = 10\<close>.
\<close>

theorem hx_extent_short:
  "hx_regions short_mesh
     = Inr (replicate 8 (1 / 8), [1 / 6, 1 / 3], replicate 14 (1 / 2), [1, 2])
   \<and> sum_list (replicate 8 (1 / 8 :: real)) + sum_list [1 / 6, 1 / 3]
       + sum_list (replicate 14 (1 / 2)) = 17 / 2
   \<and> 17 / 2 < dx2 short_mesh"
  by (simp add: short_mesh_regions sum_list_replicate)
     (simp add: short_mesh_def default_mesh_def)

text \<open>
  Claim C4, as amended. When the padding region is not empty, the widths of regions 1 and 2
  sum, after the rescaling, to the sum before the rescaling rounded down to a multiple of
  \<open>csx2\<close> (in exact arithmetic).
\<close>

theorem hx_rescaling:
  assumes "hx_regions m = Inr (a, b, c, d)"
    and "hx1b_unscaled m = Inr pad"
    and "pad \<noteq> []"
  shows "sum_list a + sum_list b
         = real_of_int \<lfloor>(sum_list a + sum_list pad) / csx2 m\<rfloor> * csx2 m"
proof -
  define k where "k = real_of_int \<lfloor>(sum_list a + sum_list pad) / csx2 m\<rfloor> * csx2 m"
  from assms(1) obtain pad' where p: "hx1b_unscaled m = Inr pad'"
    "pad' = [] \<or> sum_list pad' \<noteq> 0"
    "b = map (\<lambda>h. h * ((real_of_int \<lfloor>(sum_list a + sum_list pad') / csx2 m\<rfloor> * csx2 m
                            - sum_list a) / sum_list pad')) pad'"
    using hx_regions_Inr by blast
  from p(1) assms(2) have eq: "pad' = pad" by simp
  with p(2) assms(3) have nz: "sum_list pad \<noteq> 0" by simp
  from p(3) eq have "b = map (\<lambda>h. h * ((k - sum_list a) / sum_list pad)) pad"
    by (simp add: k_def)
  then have "sum_list b = sum_list pad * ((k - sum_list a) / sum_list pad)"
    by (simp only: sum_list_scaled)
  also have "\<dots> = k - sum_list a" using nz by simp
  finally show ?thesis by (simp add: k_def)
qed

text \<open>
  Witness for C4: fine cells of 1/8 and two padding cells 1/4, 1/2 sum to 7/4; after the
  rescaling regions 1 and 2 sum to 3/2, three coarse cells of 1/2.
\<close>

theorem hx_rescaling_witness:
  "hx_regions short_mesh
     = Inr (replicate 8 (1 / 8), [1 / 6, 1 / 3], replicate 14 (1 / 2), [1, 2])
   \<and> hx1b_unscaled short_mesh = Inr [1 / 4, 1 / 2]
   \<and> [1 / 4, 1 / 2] \<noteq> ([] :: real list)
   \<and> sum_list (replicate 8 (1 / 8)) + sum_list [1 / 6, 1 / 3]
       = real_of_int \<lfloor>(sum_list (replicate 8 (1 / 8)) + sum_list [1 / 4, 1 / 2])
                          / csx2 short_mesh\<rfloor> * csx2 short_mesh"
  using hx_rescaling [OF short_mesh_regions short_mesh_hx1b]
  by (simp add: short_mesh_regions short_mesh_hx1b)

text \<open>
  Counterexample to C4 as stated: with \<open>csx1 = 1\<close>, \<open>csx2 = 2\<close> and \<open>pfx1 = 4\<close> no padding
  cell fits (\<open>floor(ln 2 / ln 4) = 0\<close>), nothing is rescaled, and regions 1 and 2 sum to 3,
  which is not the multiple \<open>floor(3 / 2) * 2 = 2\<close> of \<open>csx2\<close>.
\<close>

theorem hx_rescaling_counterexample:
  "hx_regions nopad_mesh = Inr ([1, 1, 1], [], [2, 2, 2, 2], [])
   \<and> hx1b_unscaled nopad_mesh = Inr []
   \<and> sum_list [1, 1, 1] + sum_list []
       \<noteq> real_of_int \<lfloor>(sum_list [1, 1, 1] + sum_list []) / csx2 nopad_mesh\<rfloor>
          * csx2 nopad_mesh"
  by (simp add: hx_regions_def nopad_mesh_hx1a nopad_mesh_hx1b Let_def)
     (simp add: nopad_mesh_def default_mesh_def replicate_numeral)

subsection \<open>The source assembler\<close>

lemma set_mask_Inr:
  "set_mask a msk v = Inr r \<longleftrightarrow>
     length msk = length a \<and> r = map2 (\<lambda>b x. if b then v else x) msk a"
  by (auto simp: set_mask_def)

lemma map2_replicate_right:
  "length xs = n \<Longrightarrow> map2 f xs (replicate n c) = map (\<lambda>x. f x c) xs"
  by (induction xs arbitrary: n) auto

text \<open>Two masked assignments in a row on a zero array.\<close>

text \<open>Two masked assignments in a row on a zero array: the later one wins.\<close>

lemma set_mask_twice:
  assumes "set_mask (replicate n 0) m1 v1 = Inr a1" and "set_mask a1 m2 v2 = Inr a2"
  shows "length m1 = n \<and> length m2 = n \<and>
         a2 = map2 (\<lambda>b1 b2. if b2 then v2 else if b1 then v1 else 0) m1 m2"
proof -
  from assms(1) have l1: "length m1 = n" and a1: "a1 = map (\<lambda>b. if b then v1 else 0) m1"
    by (auto simp: set_mask_Inr map2_replicate_right)
  from assms(2) a1 l1 have l2: "length m2 = n"
    and a2: "a2 = map2 (\<lambda>b x. if b then v2 else x) m2 (map (\<lambda>b. if b then v1 else 0) m1)"
    by (auto simp: set_mask_Inr)
  have "a2 = map2 (\<lambda>b1 b2. if b2 then v2 else if b1 then v1 else 0) m1 m2"
    unfolding a2 using l1 l2
    by (intro nth_equalityI) auto
  with l1 l2 show ?thesis by simp
qed

text \<open>What a successful run of \<open>dg\<close> has computed.\<close>

lemma dg_Inr:
  assumes "dg s = Inr d"
  shows "\<exists>dgv dgh sgh sgv.
           dgv_ind s = Inr dgv \<and> dgh_ind2 s = Inr dgh \<and> sgh_ind s = Inr sgh
           \<and> sgv_ind s = Inr sgv
           \<and> length dgh = c0 (vnF (s_mesh s)) \<and> length sgh = c0 (vnF (s_mesh s))
           \<and> length dgv = c2 (vnF (s_mesh s)) \<and> length sgv = c2 (vnF (s_mesh s))
           \<and> d = map2 (\<lambda>h g. if g then - 1 else if h then 1 else 0) dgh sgh
                 @ replicate (c1 (vnF (s_mesh s))) 0
                 @ map2 (\<lambda>v g. if g then 1 else if v then - 1 else 0) dgv sgv"
proof -
  from assms obtain dgv z1 dgh x1 sgh x2 sgv z2 where
    m: "dgv_ind s = Inr dgv" "dgh_ind2 s = Inr dgh" "sgh_ind s = Inr sgh" "sgv_ind s = Inr sgv"
    and a: "set_mask (replicate (c2 (vnF (s_mesh s))) 0) dgv (- 1) = Inr z1"
      "set_mask (replicate (c0 (vnF (s_mesh s))) 0) dgh 1 = Inr x1"
      "set_mask x1 sgh (- 1) = Inr x2"
      "set_mask z1 sgv 1 = Inr z2"
    and d: "d = x2 @ replicate (c1 (vnF (s_mesh s))) 0 @ z2"
    unfolding dg_def Let_def ebind_eq_Inr by blast
  from set_mask_twice [OF a(2) a(3)] set_mask_twice [OF a(1) a(4)] m d
  show ?thesis by simp
qed

lemma sum_list_signed:
  "length xs = length ys \<Longrightarrow>
   sum_list (map2 (\<lambda>b1 b2. if b2 then v2 else if b1 then v1 else (0::complex)) xs ys)
   = of_nat (length (filter id (map2 (\<lambda>b1 b2. b1 \<and> \<not> b2) xs ys))) * v1
     + of_nat (length (filter id ys)) * v2"
  by (induction xs ys rule: list_induct2) (auto simp: algebra_simps)

lemma np_divide_same_length:
  "length xs = length ys \<Longrightarrow>
   np_divide xs ys = (if 0 \<in> set ys then Inl NotFinite
                      else Inr (map2 (\<lambda>x a. x / complex_of_real a) xs ys))"
  by (simp add: np_divide_def Let_def)

text \<open>The selections and the assembled vector on the small mesh.\<close>

lemma toy_dgv: "dgv_ind (src_on toy_mesh small_cp)
  = Inr [False, False, False, True, False, False, True, False, False, True, False, False,
         True, False, False]"
  by (simp add: dgv_ind_def src_on_def toy_mesh_def small_cp_def src_a_def np_min_def)

lemma toy_sgv: "sgv_ind (src_on toy_mesh small_cp)
  = Inr [False, False, False, False, False, True, False, False, True, False, False, True,
         False, False, False]"
  by (simp add: sgv_ind_def src_on_def toy_mesh_def small_cp_def src_a_def np_min_def)

lemma toy_dgh: "dgh_ind2 (src_on toy_mesh small_cp)
  = Inr [True, False, False, False, False, False, False, False, False, False, False, False]"
  by (simp add: dgh_ind2_def src_on_def toy_mesh_def small_cp_def src_a_def np_min_def
      casing_a_def casing_r_def)

lemma toy_sgh: "sgh_ind (src_on toy_mesh small_cp)
  = Inr [False, False, False, False, False, False, False, False, False, True, True, False]"
  by (simp add: sgh_ind_def src_on_def toy_mesh_def small_cp_def src_a_def np_min_def)

lemma toy_vnF: "vnF (s_mesh (src_on toy_mesh small_cp)) = (12, 0, 15)"
  by (simp add: src_on_def toy_mesh_def)

lemma toy_dg: "dg (src_on toy_mesh small_cp)
  = Inr ([1, 0, 0, 0, 0, 0, 0, 0, 0, - 1, - 1, 0]
         @ [] @ [0, 0, 0, - 1, 0, 1, - 1, 0, 1, - 1, 0, 1, - 1, 0, 0])"
  by (simp add: dg_def toy_dgv toy_sgv toy_dgh toy_sgh toy_vnF set_mask_def Let_def
      replicate_numeral)

lemma toy_dg_p:
  "dg_p (src_on toy_mesh small_cp)
   = Inr [(1, map2 (\<lambda>x a. x / complex_of_real a)
               ([1, 0, 0, 0, 0, 0, 0, 0, 0, - 1, - 1, 0]
                @ [] @ [0, 0, 0, - 1, 0, 1, - 1, 0, 1, - 1, 0, 1, - 1, 0, 0])
               (area toy_mesh))]"
proof -
  have a: "area (s_mesh (src_on toy_mesh small_cp)) = area toy_mesh"
    and f: "s_freqs (src_on toy_mesh small_cp) = [1]"
    by (simp_all add: src_on_def small_cp_def)
  have l: "length (area toy_mesh) = 27" and z: "0 \<notin> set (area toy_mesh)"
    by (simp_all add: toy_mesh_def)
  show ?thesis
    by (simp add: dg_p_def toy_dg a f np_divide_same_length l z)
qed

text \<open>
  Claim C2, as amended. The signed unit injections sum to the number of faces that hold
  \<open>+1\<close> (downhole coupling faces not also on the near-surface wire, and return-electrode
  faces) minus the number of faces that hold \<open>-1\<close> (borehole faces not also on the return
  electrode, and near-surface faces). The four counts are independent of each other, so the
  sum is zero only when they happen to balance.
\<close>

theorem dg_sum:
  assumes "dg s = Inr d"
    and "dgv_ind s = Inr dgv" and "dgh_ind2 s = Inr dgh"
    and "sgh_ind s = Inr sgh" and "sgv_ind s = Inr sgv"
  shows "sum_list d
         = of_nat (length (filter id (map2 (\<lambda>h g. h \<and> \<not> g) dgh sgh)))
           + of_nat (length (filter id sgv))
           - of_nat (length (filter id (map2 (\<lambda>v g. v \<and> \<not> g) dgv sgv)))
           - of_nat (length (filter id sgh))"
proof -
  from dg_Inr [OF assms(1)] assms(2-5)
  have l: "length dgh = length sgh" "length dgv = length sgv"
    and d: "d = map2 (\<lambda>h g. if g then - 1 else if h then 1 else 0) dgh sgh
                 @ replicate (c1 (vnF (s_mesh s))) 0
                 @ map2 (\<lambda>v g. if g then 1 else if v then - 1 else 0) dgv sgv"
    by auto
  show ?thesis
    unfolding d using l
    by (simp add: sum_list_signed sum_list_replicate)
qed

text \<open>Witness for C2: one and three faces hold \<open>+1\<close>, four and two hold \<open>-1\<close>.\<close>

theorem dg_sum_witness:
  "dg (src_on toy_mesh small_cp)
     = Inr ([1, 0, 0, 0, 0, 0, 0, 0, 0, - 1, - 1, 0]
            @ [] @ [0, 0, 0, - 1, 0, 1, - 1, 0, 1, - 1, 0, 1, - 1, 0, 0])
   \<and> sum_list ([1, 0, 0, 0, 0, 0, 0, 0, 0, - 1, - 1, 0]
               @ [] @ [0, 0, 0, - 1, 0, 1, - 1, 0, 1, - 1, 0, 1, - 1, 0, 0 :: complex])
     = of_nat 1 + of_nat 3 - of_nat 4 - of_nat 2"
  using dg_sum [OF toy_dg toy_dgv toy_dgh toy_sgh toy_sgv]
  by (simp add: toy_dg)

text \<open>
  Counterexample to C2 as stated: on the small mesh, with the source at depth 1 and the
  return electrode at radius 5/4, the borehole wire takes 4 faces, the downhole coupling 1,
  the near-surface wire 2 and the return electrode 3; the injections sum to \<open>- 2\<close>.
\<close>

theorem dg_sum_counterexample:
  "dg (src_on toy_mesh small_cp)
     = Inr ([1, 0, 0, 0, 0, 0, 0, 0, 0, - 1, - 1, 0]
            @ [] @ [0, 0, 0, - 1, 0, 1, - 1, 0, 1, - 1, 0, 1, - 1, 0, 0])
   \<and> sum_list ([1, 0, 0, 0, 0, 0, 0, 0, 0, - 1, - 1, 0]
               @ [] @ [0, 0, 0, - 1, 0, 1, - 1, 0, 1, - 1, 0, 1, - 1, 0, 0 :: complex]) = - 2"
  by (simp add: toy_dg)

text \<open>The selections with the return electrode on the axis cells.\<close>

lemma axis_sel:
  "dgv_ind (src_on toy_mesh axis_cp)
     = Inr [False, False, False, True, False, False, True, False, False, True, False, False,
            True, False, False]"
  "sgv_ind (src_on toy_mesh axis_cp)
     = Inr [False, False, False, True, False, False, True, False, False, True, False, False,
            False, False, False]"
  "dgh_ind2 (src_on toy_mesh axis_cp)
     = Inr [True, False, False, False, False, False, False, False, False, False, False, False]"
  "sgh_ind (src_on toy_mesh axis_cp)
     = Inr [False, False, False, False, False, False, False, False, False, False, False,
            False]"
  by (simp_all add: dgv_ind_def sgv_ind_def dgh_ind2_def sgh_ind_def src_on_def toy_mesh_def
      axis_cp_def small_cp_def src_a_def np_min_def casing_a_def casing_r_def)

lemma axis_vnF: "vnF (s_mesh (src_on toy_mesh axis_cp)) = (12, 0, 15)"
  by (simp add: src_on_def toy_mesh_def)

text \<open>
  Claim C5, as amended. The four assignments are made in the order borehole wire (\<open>-1\<close>),
  downhole coupling (\<open>+1\<close>), near-surface wire (\<open>-1\<close>), return electrode (\<open>+1\<close>), and a
  later assignment overwrites an earlier one. So the unit vector holds, on the z-faces, \<open>+1\<close>
  on the return-electrode faces and \<open>-1\<close> on the borehole faces that are not
  return-electrode faces; on the x-faces, \<open>-1\<close> on the near-surface faces and \<open>+1\<close> on the
  downhole coupling faces that are not near-surface faces; zero elsewhere. Every source
  vector is this vector divided, entry by entry, by the face areas.
\<close>

theorem dg_p_assembly:
  assumes "dg_p s = Inr srcs"
    and "dgv_ind s = Inr dgv" and "dgh_ind2 s = Inr dgh"
    and "sgh_ind s = Inr sgh" and "sgv_ind s = Inr sgv"
    and "length (area (s_mesh s))
         = c0 (vnF (s_mesh s)) + c1 (vnF (s_mesh s)) + c2 (vnF (s_mesh s))"
  shows "dg s = Inr (map2 (\<lambda>h g. if g then - 1 else if h then 1 else 0) dgh sgh
                     @ replicate (c1 (vnF (s_mesh s))) 0
                     @ map2 (\<lambda>v g. if g then 1 else if v then - 1 else 0) dgv sgv)
         \<and> srcs = map (\<lambda>f. (f, map2 (\<lambda>x a. x / complex_of_real a)
                                  (map2 (\<lambda>h g. if g then - 1 else if h then 1 else 0) dgh sgh
                                   @ replicate (c1 (vnF (s_mesh s))) 0
                                   @ map2 (\<lambda>v g. if g then 1 else if v then - 1 else 0) dgv sgv)
                                  (area (s_mesh s))))
                      (s_freqs s)"
proof -
  from assms(1) obtain d where d: "dg s = Inr d"
    by (cases "dg s") (simp_all add: dg_p_def)
  from dg_Inr [OF d] assms(2-5)
  have l: "length dgh = c0 (vnF (s_mesh s))" "length sgh = c0 (vnF (s_mesh s))"
      "length dgv = c2 (vnF (s_mesh s))" "length sgv = c2 (vnF (s_mesh s))"
    and dd: "d = map2 (\<lambda>h g. if g then - 1 else if h then 1 else 0) dgh sgh
                 @ replicate (c1 (vnF (s_mesh s))) 0
                 @ map2 (\<lambda>v g. if g then 1 else if v then - 1 else 0) dgv sgv"
    by auto
  from dd l assms(6) have len: "length d = length (area (s_mesh s))" by simp
  from assms(1) d len
  have "srcs = map (\<lambda>f. (f, map2 (\<lambda>x a. x / complex_of_real a) d (area (s_mesh s))))
                 (s_freqs s)"
    by (auto simp: dg_p_def np_divide_same_length split: if_splits)
  with d dd show ?thesis by simp
qed

text \<open>Witness for C5: the source on the small mesh.\<close>

theorem dg_p_assembly_witness:
  "dg_p (src_on toy_mesh small_cp)
   = Inr [(1, map2 (\<lambda>x a. x / complex_of_real a)
               ([1, 0, 0, 0, 0, 0, 0, 0, 0, - 1, - 1, 0]
                @ [] @ [0, 0, 0, - 1, 0, 1, - 1, 0, 1, - 1, 0, 1, - 1, 0, 0])
               (area toy_mesh))]
   \<and> length (area (s_mesh (src_on toy_mesh small_cp))) = 12 + 0 + 15
   \<and> dg (src_on toy_mesh small_cp)
     = Inr ([1, 0, 0, 0, 0, 0, 0, 0, 0, - 1, - 1, 0]
            @ [] @ [0, 0, 0, - 1, 0, 1, - 1, 0, 1, - 1, 0, 1, - 1, 0, 0])"
proof -
  have l: "length (area (s_mesh (src_on toy_mesh small_cp)))
           = c0 (vnF (s_mesh (src_on toy_mesh small_cp)))
             + c1 (vnF (s_mesh (src_on toy_mesh small_cp)))
             + c2 (vnF (s_mesh (src_on toy_mesh small_cp)))"
    by (simp add: src_on_def toy_mesh_def)
  from dg_p_assembly [OF toy_dg_p toy_dgv toy_dgh toy_sgh toy_sgv l] l
  show ?thesis
    by (simp add: toy_dg_p toy_vnF)
qed

text \<open>
  Counterexample to C5 as stated: with the return electrode at radius 1/8 the z-faces 3, 6
  and 9 (radius 1/8, heights \<open>- 1\<close>, 0, 1) are borehole faces and return-electrode faces at
  once. The borehole assignment writes \<open>-1\<close> there and the return-electrode assignment
  overwrites it: these borehole faces hold \<open>+1\<close> in the assembled vector, not \<open>-1\<close>.
\<close>

theorem dg_p_assembly_counterexample:
  "dgv_ind (src_on toy_mesh axis_cp)
     = Inr [False, False, False, True, False, False, True, False, False, True, False, False,
            True, False, False]
   \<and> dg (src_on toy_mesh axis_cp)
     = Inr ([1, 0, 0, 0, 0, 0, 0, 0, 0, 0, 0, 0]
            @ [] @ [0, 0, 0, 1, 0, 0, 1, 0, 0, 1, 0, 0, - 1, 0, 0])
   \<and> [0, 0, 0, 1, 0, 0, 1, 0, 0, 1, 0, 0, - 1, 0, 0 :: complex] ! 3 = 1
   \<and> dg_p (src_on toy_mesh axis_cp)
     = Inr [(1, map2 (\<lambda>x a. x / complex_of_real a)
                 ([1, 0, 0, 0, 0, 0, 0, 0, 0, 0, 0, 0]
                  @ [] @ [0, 0, 0, 1, 0, 0, 1, 0, 0, 1, 0, 0, - 1, 0, 0])
                 (area toy_mesh))]"
proof -
  have d: "dg (src_on toy_mesh axis_cp)
     = Inr ([1, 0, 0, 0, 0, 0, 0, 0, 0, 0, 0, 0]
            @ [] @ [0, 0, 0, 1, 0, 0, 1, 0, 0, 1, 0, 0, - 1, 0, 0])"
    by (simp add: dg_def axis_sel axis_vnF set_mask_def Let_def replicate_numeral)
  have a: "area (s_mesh (src_on toy_mesh axis_cp)) = area toy_mesh"
    and f: "s_freqs (src_on toy_mesh axis_cp) = [1]"
    by (simp_all add: src_on_def axis_cp_def small_cp_def)
  have l: "length (area toy_mesh) = 27" and z: "0 \<notin> set (area toy_mesh)"
    by (simp_all add: toy_mesh_def)
  have p: "dg_p (src_on toy_mesh axis_cp)
     = Inr [(1, map2 (\<lambda>x a. x / complex_of_real a)
                 ([1, 0, 0, 0, 0, 0, 0, 0, 0, 0, 0, 0]
                  @ [] @ [0, 0, 0, 1, 0, 0, 1, 0, 0, 1, 0, 0, - 1, 0, 0])
                 (area toy_mesh))]"
    by (simp add: dg_p_def d a f np_divide_same_length l z)
  from d p show ?thesis by (simp add: axis_sel)
qed

text \<open>
  Claim C6, as amended. The downhole coupling selection consists exactly of the x-faces
  whose radial coordinate is at most the casing inner radius and whose vertical coordinate
  lies at or below the source depth, by less than one minimum vertical cell width.
\<close>

theorem dgh_ind2_selection:
  assumes "dgh_ind2 s = Inr sel" and "i < length (gridFx (s_mesh s))"
  shows "length sel = length (gridFx (s_mesh s))
         \<and> (sel ! i \<longleftrightarrow>
              c0 (gridFx (s_mesh s) ! i) \<le> s_casing_a s
              \<and> 0 \<le> c2 (s_src_a s) - c2 (gridFx (s_mesh s) ! i)
              \<and> c2 (s_src_a s) - c2 (gridFx (s_mesh s) ! i) < min_list (mesh_hz (s_mesh s)))"
  using assms
  by (auto simp: dgh_ind2_def np_min_def split: if_splits)

text \<open>Witness for C6: the first x-face of the small mesh.\<close>

theorem dgh_ind2_selection_witness:
  "dgh_ind2 (src_on toy_mesh small_cp)
     = Inr [True, False, False, False, False, False, False, False, False, False, False, False]
   \<and> (0::nat) < length (gridFx (s_mesh (src_on toy_mesh small_cp)))
   \<and> c0 (gridFx (s_mesh (src_on toy_mesh small_cp)) ! 0) \<le> s_casing_a (src_on toy_mesh small_cp)
   \<and> 0 \<le> c2 (s_src_a (src_on toy_mesh small_cp)) - c2 (gridFx (s_mesh (src_on toy_mesh small_cp)) ! 0)
   \<and> c2 (s_src_a (src_on toy_mesh small_cp)) - c2 (gridFx (s_mesh (src_on toy_mesh small_cp)) ! 0)
       < min_list (mesh_hz (s_mesh (src_on toy_mesh small_cp)))"
proof -
  have i: "(0::nat) < length (gridFx (s_mesh (src_on toy_mesh small_cp)))"
    by (simp add: src_on_def toy_mesh_def)
  from dgh_ind2_selection [OF toy_dgh i] i show ?thesis
    by (simp add: toy_dgh)
qed

text \<open>
  Counterexample to C6 as stated: the source depth is \<open>- 1\<close> and the minimum vertical cell
  width is 1. The x-face 3 at radius 1/4 (the casing inner radius) and height \<open>- 1/2\<close>, half a
  cell above the source depth, is not selected; the only face selected is face 0, at height
  \<open>- 3/2\<close>, half a cell below the source depth.
\<close>

theorem dgh_ind2_counterexample:
  "dgh_ind2 (src_on toy_mesh small_cp)
     = Inr [True, False, False, False, False, False, False, False, False, False, False, False]
   \<and> gridFx toy_mesh ! 0 = (1 / 4, 0, - 3 / 2)
   \<and> gridFx toy_mesh ! 3 = (1 / 4, 0, - 1 / 2)
   \<and> casing_a small_cp = 1 / 4
   \<and> src_a small_cp = (0, 0, - 1)
   \<and> min_list (mesh_hz toy_mesh) = 1"
  by (simp add: toy_dgh)
     (simp add: toy_mesh_def small_cp_def casing_a_def casing_r_def src_a_def)

subsection \<open>No face selected by the source assembler\<close>

lemma set_mask_none:
  "length msk = length a \<Longrightarrow> True \<notin> set msk \<Longrightarrow> set_mask a msk v = Inr a"
  by (auto simp: set_mask_def intro!: nth_equalityI) (metis nth_mem)

lemma selection_lengths:
  "dgv_ind s = Inr dgv \<Longrightarrow> length dgv = length (gridFz (s_mesh s))"
  "dgh_ind2 s = Inr dgh \<Longrightarrow> length dgh = length (gridFx (s_mesh s))"
  "sgh_ind s = Inr sgh \<Longrightarrow> length sgh = length (gridFx (s_mesh s))"
  "sgv_ind s = Inr sgv \<Longrightarrow> length sgv = length (gridFz (s_mesh s))"
  by (auto simp: dgv_ind_def dgh_ind2_def sgh_ind_def sgv_ind_def ebind_eq_Inr)

lemma divide_zeros:
  "length ys = n \<Longrightarrow> map2 (\<lambda>x a. x / complex_of_real a) (replicate n 0) ys = replicate n 0"
  by (induction ys arbitrary: n) auto

lemma dg_p_no_faces:
  assumes sel: "dgv_ind s = Inr dgv" "dgh_ind2 s = Inr dgh" "sgh_ind s = Inr sgh"
      "sgv_ind s = Inr sgv"
    and none: "True \<notin> set dgv" "True \<notin> set dgh" "True \<notin> set sgh" "True \<notin> set sgv"
    and grid: "length (gridFx (s_mesh s)) = c0 (vnF (s_mesh s))"
      "length (gridFz (s_mesh s)) = c2 (vnF (s_mesh s))"
    and ar: "length (area (s_mesh s))
             = c0 (vnF (s_mesh s)) + c1 (vnF (s_mesh s)) + c2 (vnF (s_mesh s))"
      "0 \<notin> set (area (s_mesh s))"
  shows "dg_p s = Inr (map (\<lambda>f. (f, replicate (length (area (s_mesh s))) 0)) (s_freqs s))"
proof -
  let ?nx = "c0 (vnF (s_mesh s))" and ?ny = "c1 (vnF (s_mesh s))" and ?nz = "c2 (vnF (s_mesh s))"
  have l: "length dgv = ?nz" "length dgh = ?nx" "length sgh = ?nx" "length sgv = ?nz"
    using selection_lengths [of s] sel grid by simp_all
  have d: "dg s = Inr (replicate ?nx 0 @ replicate ?ny 0 @ replicate ?nz 0)"
    by (simp add: dg_def Let_def sel set_mask_none l none)
  have r: "replicate ?nx 0 @ replicate ?ny 0 @ replicate ?nz (0::complex)
           = replicate (length (area (s_mesh s))) 0"
    by (simp add: ar(1) replicate_add)
  show ?thesis
    by (simp add: dg_p_def d r np_divide_def Let_def ar(2) divide_zeros)
qed

text \<open>The small mesh placed below the source: no selection has a face.\<close>

lemma deep_sel:
  "dgv_ind (src_on deep_mesh small_cp) = Inr (replicate 15 False)"
  "dgh_ind2 (src_on deep_mesh small_cp) = Inr (replicate 12 False)"
  "sgh_ind (src_on deep_mesh small_cp) = Inr (replicate 12 False)"
  "sgv_ind (src_on deep_mesh small_cp) = Inr (replicate 15 False)"
  by (simp_all add: dgv_ind_def dgh_ind2_def sgh_ind_def sgv_ind_def src_on_def deep_mesh_def
      toy_mesh_def small_cp_def src_a_def np_min_def casing_a_def casing_r_def
      replicate_numeral)

lemma deep_shape:
  "length (gridFx (s_mesh (src_on deep_mesh small_cp)))
   = c0 (vnF (s_mesh (src_on deep_mesh small_cp)))"
  "length (gridFz (s_mesh (src_on deep_mesh small_cp)))
   = c2 (vnF (s_mesh (src_on deep_mesh small_cp)))"
  "length (area (s_mesh (src_on deep_mesh small_cp)))
   = c0 (vnF (s_mesh (src_on deep_mesh small_cp)))
     + c1 (vnF (s_mesh (src_on deep_mesh small_cp)))
     + c2 (vnF (s_mesh (src_on deep_mesh small_cp)))"
  "0 \<notin> set (area (s_mesh (src_on deep_mesh small_cp)))"
  "length (area (s_mesh (src_on deep_mesh small_cp))) = 27"
  "s_freqs (src_on deep_mesh small_cp) = [1]"
  by (simp_all add: src_on_def deep_mesh_def toy_mesh_def small_cp_def)

subsection \<open>The current extractor\<close>

text \<open>The indicator array of a four-entry model vector.\<close>

lemma casing_ind_four:
  assumes "length (st ! sigma_m) = 4"
  shows "casing_ind st sigma_m = (Inr (length st), st @ [[0, 0, 1, 0]])"
proof -
  from assms obtain a b c d where x: "st ! sigma_m = [a, b, c, d]"
    by (auto simp: length_Suc_conv numeral_eq_Suc)
  show ?thesis
    by (simp add: casing_ind_def np_copy_def setitems_def setitem_def x)
qed

text \<open>The arrays that exist before the call are not written.\<close>

lemma setitems_take:
  "setitems st r idx v = Inr st' \<Longrightarrow> r \<ge> n \<Longrightarrow> take n st' = take n st \<and> length st' = length st"
  by (auto simp: setitems_def split: if_splits)

lemma casing_ind_frame:
  "take (length st) (snd (casing_ind st sigma_m)) = st"
proof -
  have c: "np_copy st sigma_m = (st @ [st ! sigma_m], length st)" by (simp add: np_copy_def)
  show ?thesis
  proof (cases "setitems (st @ [st ! sigma_m]) (length st) [0, 1, 3] 0")
    case (Inl e)
    then show ?thesis by (simp add: casing_ind_def c del: One_nat_def)
  next
    case s2: (Inr st2)
    from setitems_take [OF s2, of "length st"]
    have t2: "take (length st) st2 = st" "length st2 = Suc (length st)" by simp_all
    show ?thesis
    proof (cases "setitem st2 (length st) 2 1")
      case (Inl e)
      then show ?thesis by (simp add: casing_ind_def c s2 t2 del: One_nat_def)
    next
      case s3: (Inr st3)
      then have "setitems st2 (length st) [2] 1 = Inr st3" by (simp add: setitem_def)
      from setitems_take [OF this, of "length st"] t2
      have "take (length st) st3 = st" by simp
      then show ?thesis by (simp add: casing_ind_def c s2 s3 del: One_nat_def)
    qed
  qed
qed

lemma CasingCurrents_store:
  "snd (CasingCurrents cprops flds mesh sigma_m indActive casingMap st)
   = snd (casing_ind st sigma_m)"
  by (simp add: CasingCurrents_def split: prod.splits sum.splits)

text \<open>The loops on a face indicator that is zero everywhere.\<close>

lemma sum_list_zeros: "(\<And>x. x \<in> set xs \<Longrightarrow> x = (0::complex)) \<Longrightarrow> sum_list xs = 0"
  by (induction xs) auto

lemma reshape_sum0_zeros:
  "n = n0 * n2 \<Longrightarrow> reshape_sum0 (replicate n 0) n0 n2 = Inr (replicate n2 0)"
proof -
  assume n: "n = n0 * n2"
  have "sum_list (take n0 (drop (k * n0) (replicate n (0::complex)))) = 0" for k
    by (rule sum_list_zeros) (auto dest!: in_set_takeD in_set_dropD)
  then show ?thesis
    by (simp add: reshape_sum0_def n map_replicate_const)
qed

lemma freq_loop_zeros:
  assumes "\<And>i. i \<in> set idx \<Longrightarrow> i < length jAC \<and> jAC ! i = replicate n 0"
    and "nFx mesh \<le> n"
    and "nFx mesh = c0 (vnFx mesh) * c2 (vnFx mesh)"
    and "n - nFx mesh = c0 (vnFz mesh) * c2 (vnFz mesh)"
  shows "freq_loop mesh jAC idx
         = Inr (replicate (length idx) (replicate (c2 (vnFx mesh)) 0),
                replicate (length idx) (replicate (c2 (vnFz mesh)) 0))"
  using assms(1)
proof (induction idx)
  case Nil
  show ?case by simp
next
  case (Cons i idx)
  from Cons.prems [of i] have i: "i < length jAC" "jAC ! i = replicate n 0" by simp_all
  have t: "take (nFx mesh) (replicate n (0::complex)) = replicate (nFx mesh) 0"
    using assms(2) by (simp add: min_def)
  have rest: "freq_loop mesh jAC idx
         = Inr (replicate (length idx) (replicate (c2 (vnFx mesh)) 0),
                replicate (length idx) (replicate (c2 (vnFz mesh)) 0))"
    using Cons.IH Cons.prems by simp
  have x: "reshape_sum0 (take (nFx mesh) (jAC ! i)) (c0 (vnFx mesh)) (c2 (vnFx mesh))
           = Inr (replicate (c2 (vnFx mesh)) 0)"
    unfolding i(2) t using assms(3) by (rule reshape_sum0_zeros)
  have z: "reshape_sum0 (drop (nFx mesh) (jAC ! i)) (c0 (vnFz mesh)) (c2 (vnFz mesh))
           = Inr (replicate (c2 (vnFz mesh)) 0)"
    unfolding i(2) drop_replicate using assms(4) by (rule reshape_sum0_zeros)
  show ?case
    using i(1) by (simp add: x z rest)
qed

lemma sdiag_mult_Inr:
  "(\<And>col. col \<in> set j \<Longrightarrow> length col = length d) \<Longrightarrow>
   sdiag_mult d j = Inr (map (\<lambda>col. map2 (\<lambda>a x. complex_of_real a * x) d col) j)"
  by (simp add: sdiag_mult_def)

lemma map2_zero_left:
  "(\<And>a. a \<in> set d \<Longrightarrow> a = 0) \<Longrightarrow> length col = length d \<Longrightarrow>
   map2 (\<lambda>a x. complex_of_real a * x) d col = replicate (length d) 0"
  by (induction d col rule: list_induct2') auto

lemma mu_loop_zeros:
  assumes faces: "\<And>a. a \<in> set faces \<Longrightarrow> a = 0" "length faces = length (area mesh)"
    and flds: "\<And>mur. mur \<in> set murs \<Longrightarrow>
                 \<exists>j. flds mur = Some j \<and> length (freqs cprops) \<le> length j
                     \<and> (\<forall>col \<in> set j. length col = length (area mesh))"
    and fit: "nFx mesh \<le> length (area mesh)"
      "nFx mesh = c0 (vnFx mesh) * c2 (vnFx mesh)"
      "length (area mesh) - nFx mesh = c0 (vnFz mesh) * c2 (vnFz mesh)"
  shows "mu_loop cprops flds mesh faces murs (Ix, Iz)
         = Inr (\<lambda>mur. if mur \<in> set murs
                       then Some (replicate (length (freqs cprops))
                                    (replicate (c2 (vnFx mesh)) 0))
                       else Ix mur,
                \<lambda>mur. if mur \<in> set murs
                       then Some (replicate (length (freqs cprops))
                                    (replicate (c2 (vnFz mesh)) 0))
                       else Iz mur)"
  using flds
proof (induction murs arbitrary: Ix Iz)
  case Nil
  show ?case by simp
next
  case (Cons mur murs)
  from Cons.prems [of mur] obtain j where j: "flds mur = Some j"
    "length (freqs cprops) \<le> length j" "\<And>col. col \<in> set j \<Longrightarrow> length col = length (area mesh)"
    by auto
  define jA where "jA = map (\<lambda>col. map2 (\<lambda>a x. complex_of_real a * x) (area mesh) col) j"
  have jA: "sdiag_mult (area mesh) j = Inr jA"
    unfolding jA_def using j(3) by (rule sdiag_mult_Inr)
  have ljA: "length col = length faces" if "col \<in> set jA" for col
    using that j(3) faces(2) by (auto simp: jA_def)
  define jAC where "jAC = map (\<lambda>col. map2 (\<lambda>a x. complex_of_real a * x) faces col) jA"
  have jAC: "sdiag_mult faces jA = Inr jAC"
    unfolding jAC_def using ljA by (rule sdiag_mult_Inr)
  have cols: "i < length jAC \<and> jAC ! i = replicate (length (area mesh)) 0"
    if "i \<in> set [0..<length (freqs cprops)]" for i
  proof -
    from that j(2) have i: "i < length jA" by (simp add: jA_def)
    then have "jA ! i \<in> set jA" by simp
    then have "length (jA ! i) = length faces" by (rule ljA)
    then have "map2 (\<lambda>a x. complex_of_real a * x) faces (jA ! i) = replicate (length faces) 0"
      using faces(1) by (intro map2_zero_left) auto
    with i faces(2) show ?thesis by (simp add: jAC_def)
  qed
  have fl: "freq_loop mesh jAC [0..<length (freqs cprops)]
            = Inr (replicate (length (freqs cprops)) (replicate (c2 (vnFx mesh)) 0),
                   replicate (length (freqs cprops)) (replicate (c2 (vnFz mesh)) 0))"
    using freq_loop_zeros [of "[0..<length (freqs cprops)]" jAC "length (area mesh)" mesh]
      cols fit by simp
  have rest: "mu_loop cprops flds mesh faces murs (Ix', Iz')
         = Inr (\<lambda>mur. if mur \<in> set murs
                       then Some (replicate (length (freqs cprops))
                                    (replicate (c2 (vnFx mesh)) 0))
                       else Ix' mur,
                \<lambda>mur. if mur \<in> set murs
                       then Some (replicate (length (freqs cprops))
                                    (replicate (c2 (vnFz mesh)) 0))
                       else Iz' mur)" for Ix' Iz'
    using Cons.IH Cons.prems by simp
  show ?case
    by (simp add: j(1) jA jAC fl rest fun_eq_iff)
qed

text \<open>The extractor on the mesh of one cell.\<close>

lemma sigma_store_ind: "casing_ind sigma_store 0 = (Inr 1, sigma_store @ [[0, 0, 1, 0]])"
  using casing_ind_four [of sigma_store 0] by (simp add: sigma_store_def)

lemma sigma_store_len: "length sigma_store = 1" "(sigma_store @ [x]) ! Suc 0 = x"
  by (simp_all add: sigma_store_def)

lemma upt_3: "[0..<3] = [0, Suc 0, 2]"
  by (simp add: upt_rec numeral_3_eq_3 numeral_2_eq_2)


lemma cell_faces_other:
  "casing_faces cell_mesh [0, 0, 1, 0] [True] other_cell_map = Inr [0, 0, 0]"
  by (simp add: casing_faces_def other_cell_map_def InjectActiveCells_def matT_vec_def
      cell_mesh_def threshold_faces_def upt_3)


lemma cell_mu_loop_other:
  "mu_loop small_cp unit_fields cell_mesh [0, 0, 0] [1] (Map.empty, Map.empty)
   = Inr ([1 \<mapsto> [[0]]], [1 \<mapsto> [[0, 0]]])"
  by (simp add: unit_fields_def sdiag_mult_def small_cp_def cell_mesh_def reshape_sum0_def
      upt_2)

text \<open>
  Claim C7, as amended. From a model vector of four entries the extractor builds the
  indicator \<open>[0, 0, 1, 0]\<close>: 1 exactly at index 2, which is the entry the code treats as
  the casing, and 0 at the indices 0, 1 and 3.
\<close>

theorem casing_ind_indicator:
  "sigma_m < length st \<Longrightarrow> length (st ! sigma_m) = 4 \<Longrightarrow>
   casing_ind st sigma_m = (Inr (length st), st @ [[0, 0, 1, 0]])"
  by (rule casing_ind_four)

text \<open>Witness for C7: the model vector \<open>[1e-8, 1e-2, 5.5e6, 1]\<close>.\<close>

theorem casing_ind_indicator_witness:
  "(0::nat) < length sigma_store \<and> length (sigma_store ! 0) = 4
   \<and> casing_ind sigma_store 0 = (Inr (length sigma_store), sigma_store @ [[0, 0, 1, 0]])"
proof -
  have h: "(0::nat) < length sigma_store" "length (sigma_store ! 0) = 4"
    by (simp_all add: sigma_store_def)
  from casing_ind_indicator [OF h] h show ?thesis by simp
qed

text \<open>
  Counterexample to C7 as stated: with the categories indexed air 0, background 1, layer 2,
  casing 3, the indicator is 0 on the casing category (index 3) and 1 on the layer
  category (index 2).
\<close>

theorem casing_ind_counterexample:
  "casing_ind sigma_store 0 = (Inr 1, sigma_store @ [[0, 0, 1, 0]])
   \<and> (sigma_store @ [[0, 0, 1, 0]]) ! 1 ! 3 = 0
   \<and> (sigma_store @ [[0, 0, 1, 0]]) ! 1 ! 2 = 1"
  by (simp add: sigma_store_ind sigma_store_len)




text \<open>
  Claim C9, as amended. When no face is selected, no error is raised on that account. If
  the four selections of the source assembler are empty (on a mesh with one grid row and one
  non-zero area per face), \<open>dg_p\<close> returns the zero vector for every frequency. If the
  thresholded face indicator is zero on every face (and the solved fields have one row per
  face and one column per frequency), \<open>CasingCurrents\<close> returns, for every permeability
  and frequency, current profiles that are zero.
\<close>

theorem empty_selection_returns_zero:
  "(dgv_ind s = Inr dgv \<and> dgh_ind2 s = Inr dgh \<and> sgh_ind s = Inr sgh \<and> sgv_ind s = Inr sgv
    \<and> True \<notin> set dgv \<and> True \<notin> set dgh \<and> True \<notin> set sgh \<and> True \<notin> set sgv
    \<and> length (gridFx (s_mesh s)) = c0 (vnF (s_mesh s))
    \<and> length (gridFz (s_mesh s)) = c2 (vnF (s_mesh s))
    \<and> length (area (s_mesh s))
        = c0 (vnF (s_mesh s)) + c1 (vnF (s_mesh s)) + c2 (vnF (s_mesh s))
    \<and> 0 \<notin> set (area (s_mesh s))
    \<longrightarrow> dg_p s = Inr (map (\<lambda>f. (f, replicate (length (area (s_mesh s))) 0)) (s_freqs s)))
   \<and> (casing_ind st sigma_m = (Inr ind, st')
      \<and> casing_faces mesh (st' ! ind) indActive casingMap = Inr faces
      \<and> (\<forall>a \<in> set faces. a = 0)
      \<and> length faces = length (area mesh)
      \<and> (\<forall>mur \<in> set (muModels cprops).
            \<exists>j. flds mur = Some j \<and> length (freqs cprops) \<le> length j
                \<and> (\<forall>col \<in> set j. length col = length (area mesh)))
      \<and> nFx mesh \<le> length (area mesh)
      \<and> nFx mesh = c0 (vnFx mesh) * c2 (vnFx mesh)
      \<and> length (area mesh) - nFx mesh = c0 (vnFz mesh) * c2 (vnFz mesh)
      \<longrightarrow> fst (CasingCurrents cprops flds mesh sigma_m indActive casingMap st)
          = Inr (\<lambda>mur. if mur \<in> set (muModels cprops)
                        then Some (replicate (length (freqs cprops))
                                     (replicate (c2 (vnFx mesh)) 0))
                        else None,
                 \<lambda>mur. if mur \<in> set (muModels cprops)
                        then Some (replicate (length (freqs cprops))
                                     (replicate (c2 (vnFz mesh)) 0))
                        else None))"
proof (intro conjI impI)
  assume "dgv_ind s = Inr dgv \<and> dgh_ind2 s = Inr dgh \<and> sgh_ind s = Inr sgh \<and> sgv_ind s = Inr sgv
    \<and> True \<notin> set dgv \<and> True \<notin> set dgh \<and> True \<notin> set sgh \<and> True \<notin> set sgv
    \<and> length (gridFx (s_mesh s)) = c0 (vnF (s_mesh s))
    \<and> length (gridFz (s_mesh s)) = c2 (vnF (s_mesh s))
    \<and> length (area (s_mesh s))
        = c0 (vnF (s_mesh s)) + c1 (vnF (s_mesh s)) + c2 (vnF (s_mesh s))
    \<and> 0 \<notin> set (area (s_mesh s))"
  then show "dg_p s = Inr (map (\<lambda>f. (f, replicate (length (area (s_mesh s))) 0)) (s_freqs s))"
    by (intro dg_p_no_faces [of s dgv dgh sgh sgv]) simp_all
next
  assume h: "casing_ind st sigma_m = (Inr ind, st')
      \<and> casing_faces mesh (st' ! ind) indActive casingMap = Inr faces
      \<and> (\<forall>a \<in> set faces. a = 0)
      \<and> length faces = length (area mesh)
      \<and> (\<forall>mur \<in> set (muModels cprops).
            \<exists>j. flds mur = Some j \<and> length (freqs cprops) \<le> length j
                \<and> (\<forall>col \<in> set j. length col = length (area mesh)))
      \<and> nFx mesh \<le> length (area mesh)
      \<and> nFx mesh = c0 (vnFx mesh) * c2 (vnFx mesh)
      \<and> length (area mesh) - nFx mesh = c0 (vnFz mesh) * c2 (vnFz mesh)"
  then have a: "\<And>a. a \<in> set faces \<Longrightarrow> a = 0"
    and b: "length faces = length (area mesh)"
    and c: "\<And>mur. mur \<in> set (muModels cprops) \<Longrightarrow>
              \<exists>j. flds mur = Some j \<and> length (freqs cprops) \<le> length j
                  \<and> (\<forall>col \<in> set j. length col = length (area mesh))"
    and d: "nFx mesh \<le> length (area mesh)"
      "nFx mesh = c0 (vnFx mesh) * c2 (vnFx mesh)"
      "length (area mesh) - nFx mesh = c0 (vnFz mesh) * c2 (vnFz mesh)"
    by blast+
  have "mu_loop cprops flds mesh faces (muModels cprops) (Map.empty, Map.empty)
         = Inr (\<lambda>mur. if mur \<in> set (muModels cprops)
                       then Some (replicate (length (freqs cprops))
                                    (replicate (c2 (vnFx mesh)) 0))
                       else Map.empty mur,
                \<lambda>mur. if mur \<in> set (muModels cprops)
                       then Some (replicate (length (freqs cprops))
                                    (replicate (c2 (vnFz mesh)) 0))
                       else Map.empty mur)"
    using a b c d by (rule mu_loop_zeros)
  with h show "fst (CasingCurrents cprops flds mesh sigma_m indActive casingMap st)
          = Inr (\<lambda>mur. if mur \<in> set (muModels cprops)
                        then Some (replicate (length (freqs cprops))
                                     (replicate (c2 (vnFx mesh)) 0))
                        else None,
                 \<lambda>mur. if mur \<in> set (muModels cprops)
                        then Some (replicate (length (freqs cprops))
                                     (replicate (c2 (vnFz mesh)) 0))
                        else None)"
    by (simp add: CasingCurrents_def del: mu_loop.simps)
qed

text \<open>
  Witness for C9: the source on the mesh placed below it, and the extractor on the mesh of
  one cell whose cell is not casing.
\<close>

theorem empty_selection_returns_zero_witness:
  "dgv_ind (src_on deep_mesh small_cp) = Inr (replicate 15 False)
   \<and> True \<notin> set (replicate 15 False)
   \<and> dg_p (src_on deep_mesh small_cp) = Inr [(1, replicate 27 0)]
   \<and> casing_faces cell_mesh [0, 0, 1, 0] [True] other_cell_map = Inr [0, 0, 0]
   \<and> fst (CasingCurrents small_cp unit_fields cell_mesh 0 [True] other_cell_map sigma_store)
     = Inr (\<lambda>mur. if mur \<in> set [1] then Some [[0]] else None,
            \<lambda>mur. if mur \<in> set [1] then Some [[0, 0]] else None)"
proof -
  let ?s = "src_on deep_mesh small_cp"
  have h1: "dgv_ind ?s = Inr (replicate 15 False) \<and> dgh_ind2 ?s = Inr (replicate 12 False)
    \<and> sgh_ind ?s = Inr (replicate 12 False) \<and> sgv_ind ?s = Inr (replicate 15 False)
    \<and> True \<notin> set (replicate 15 False) \<and> True \<notin> set (replicate 12 False)
    \<and> True \<notin> set (replicate 12 False) \<and> True \<notin> set (replicate 15 False)
    \<and> length (gridFx (s_mesh ?s)) = c0 (vnF (s_mesh ?s))
    \<and> length (gridFz (s_mesh ?s)) = c2 (vnF (s_mesh ?s))
    \<and> length (area (s_mesh ?s))
        = c0 (vnF (s_mesh ?s)) + c1 (vnF (s_mesh ?s)) + c2 (vnF (s_mesh ?s))
    \<and> 0 \<notin> set (area (s_mesh ?s))"
    using deep_sel deep_shape(1-4) by simp
  have h2: "casing_ind sigma_store 0 = (Inr 1, sigma_store @ [[0, 0, 1, 0]])
      \<and> casing_faces cell_mesh ((sigma_store @ [[0, 0, 1, 0]]) ! 1) [True] other_cell_map
          = Inr [0, 0, 0]
      \<and> (\<forall>a \<in> set [0, 0, 0 :: real]. a = 0)
      \<and> length [0, 0, 0 :: real] = length (area cell_mesh)
      \<and> (\<forall>mur \<in> set (muModels small_cp).
            \<exists>j. unit_fields mur = Some j \<and> length (freqs small_cp) \<le> length j
                \<and> (\<forall>col \<in> set j. length col = length (area cell_mesh)))
      \<and> nFx cell_mesh \<le> length (area cell_mesh)
      \<and> nFx cell_mesh = c0 (vnFx cell_mesh) * c2 (vnFx cell_mesh)
      \<and> length (area cell_mesh) - nFx cell_mesh = c0 (vnFz cell_mesh) * c2 (vnFz cell_mesh)"
    by (simp add: sigma_store_ind sigma_store_len cell_faces_other)
       (simp add: cell_mesh_def small_cp_def unit_fields_def)
  note t = empty_selection_returns_zero [of ?s "replicate 15 False" "replicate 12 False"
      "replicate 12 False" "replicate 15 False" sigma_store 0 1 "sigma_store @ [[0, 0, 1, 0]]"
      cell_mesh "[True]" other_cell_map "[0, 0, 0]" small_cp unit_fields]
  from t h1 have a: "dg_p ?s = Inr (map (\<lambda>f. (f, replicate (length (area (s_mesh ?s))) 0))
                                  (s_freqs ?s))"
    by blast
  from t h2 have b: "fst (CasingCurrents small_cp unit_fields cell_mesh 0 [True] other_cell_map
                            sigma_store)
          = Inr (\<lambda>mur. if mur \<in> set (muModels small_cp)
                        then Some (replicate (length (freqs small_cp))
                                     (replicate (c2 (vnFx cell_mesh)) 0))
                        else None,
                 \<lambda>mur. if mur \<in> set (muModels small_cp)
                        then Some (replicate (length (freqs small_cp))
                                     (replicate (c2 (vnFz cell_mesh)) 0))
                        else None)"
    by blast
  have c: "muModels small_cp = [1]" "freqs small_cp = [1]" "c2 (vnFx cell_mesh) = 1"
    "c2 (vnFz cell_mesh) = 2"
    by (simp_all add: small_cp_def cell_mesh_def)
  from a b show ?thesis
    by (simp add: deep_sel deep_shape(5,6) cell_faces_other c replicate_numeral cong: if_cong)
qed

text \<open>
  Counterexample to C9 as stated: on the mesh below the source the four selections are
  empty and \<open>dg_p\<close> returns the zero vector; on the mesh of one cell, the cell not being
  casing, the face indicator is zero and \<open>CasingCurrents\<close> returns zero profiles. Neither
  raises.
\<close>

theorem empty_selection_counterexample:
  "dgv_ind (src_on deep_mesh small_cp) = Inr (replicate 15 False)
   \<and> dgh_ind2 (src_on deep_mesh small_cp) = Inr (replicate 12 False)
   \<and> sgh_ind (src_on deep_mesh small_cp) = Inr (replicate 12 False)
   \<and> sgv_ind (src_on deep_mesh small_cp) = Inr (replicate 15 False)
   \<and> dg_p (src_on deep_mesh small_cp) = Inr [(1, replicate 27 0)]
   \<and> casing_faces cell_mesh [0, 0, 1, 0] [True] other_cell_map = Inr [0, 0, 0]
   \<and> fst (CasingCurrents small_cp unit_fields cell_mesh 0 [True] other_cell_map sigma_store)
     = Inr ([1 \<mapsto> [[0]]], [1 \<mapsto> [[0, 0]]])"
proof -
  have v: "vnF (s_mesh (src_on deep_mesh small_cp)) = (12, 0, 15)"
    by (simp add: src_on_def deep_mesh_def toy_mesh_def)
  have d: "dg (src_on deep_mesh small_cp) = Inr (replicate 27 0)"
    by (simp add: dg_def deep_sel v set_mask_def Let_def replicate_numeral)
  have p: "dg_p (src_on deep_mesh small_cp) = Inr [(1, replicate 27 0)]"
    by (simp add: dg_p_def d deep_shape(4,5,6) np_divide_same_length divide_zeros)
  have m: "muModels small_cp = [1]" by (simp add: small_cp_def)
  have c: "fst (CasingCurrents small_cp unit_fields cell_mesh 0 [True] other_cell_map
                  sigma_store)
     = Inr ([1 \<mapsto> [[0]]], [1 \<mapsto> [[0, 0]]])"
    by (simp add: CasingCurrents_def sigma_store_ind sigma_store_len
        cell_faces_other m cell_mu_loop_other del: mu_loop.simps)
  from p c show ?thesis by (simp add: deep_sel cell_faces_other)
qed

text \<open>
  Claim C10. \<open>CasingCurrents\<close> writes only into the copy it allocates: every array of the
  store before the call, the caller's \<open>sigma_m\<close> among them, has the same content after the
  call, whether the call returns or raises.
\<close>

theorem CasingCurrents_frame:
  "take (length st) (snd (CasingCurrents cprops flds mesh sigma_m indActive casingMap st)) = st
   \<and> (sigma_m < length st \<longrightarrow>
        snd (CasingCurrents cprops flds mesh sigma_m indActive casingMap st) ! sigma_m
        = st ! sigma_m)"
proof -
  let ?st' = "snd (CasingCurrents cprops flds mesh sigma_m indActive casingMap st)"
  have t: "take (length st) ?st' = st"
    by (simp add: CasingCurrents_store casing_ind_frame)
  have "?st' ! sigma_m = st ! sigma_m" if "sigma_m < length st"
  proof -
    from that have "take (length st) ?st' ! sigma_m = ?st' ! sigma_m" by simp
    with t show ?thesis by simp
  qed
  with t show ?thesis by simp
qed

text \<open>Witness for C10: a call on the mesh of one cell.\<close>

theorem CasingCurrents_frame_witness:
  "(0::nat) < length sigma_store
   \<and> snd (CasingCurrents small_cp unit_fields cell_mesh 0 [True] casing_cell_map sigma_store) ! 0
     = sigma_store ! 0
   \<and> take (length sigma_store)
        (snd (CasingCurrents small_cp unit_fields cell_mesh 0 [True] casing_cell_map sigma_store))
     = sigma_store"
proof -
  have h: "(0::nat) < length sigma_store" by (simp add: sigma_store_def)
  from CasingCurrents_frame [of sigma_store small_cp unit_fields cell_mesh 0 "[True]"
      casing_cell_map] h
  show ?thesis by simp
qed

end
